theory Spec2Isabelle
  imports Main "HOL-Library.Word"
begin

section \<open>JavaScript values shared by both constructs\<close>

text \<open>
  A JavaScript string is a sequence of UTF-16 code units; \<open>.length\<close> counts code units and a
  regular expression without the \<open>u\<close> flag compares code units. So a string is a list of
  16-bit words. \<open>js\<close> embeds an ASCII literal of the source.
\<close>

type_synonym js_string = "16 word list"

definition js_char :: "char \<Rightarrow> 16 word" where
  "js_char c = of_char c"

definition js :: "string \<Rightarrow> js_string" where
  "js s = map js_char s"

text \<open>
  Every \<open>throw new Error(`...`)\<close> of the source is an \<open>Error\<close> whose message is one of four
  templates; the constructor of \<open>message\<close> names the template and carries what the template
  interpolates. Reading a property of \<open>undefined\<close> raises a \<open>TypeError\<close>; it carries the name
  of the property read.
\<close>

datatype message =
    userName_length nat
  | userName_pattern js_string
  | passwords_required
  | passwords_not_allowed

datatype exn = Error message | TypeError string

section \<open>Regular expressions\<close>

text \<open>
  The fragment of JavaScript's regular expressions that \<open>user.ts\<close> uses: character classes
  given by ranges, concatenation, \<open>*\<close> and \<open>+\<close>, anchored at both ends. \<open>Empty\<close> (no string)
  and \<open>Alt\<close> are only produced by the matcher. \<open>regex_test r s\<close> is \<open>/^r$/.test(s)\<close>.
\<close>

datatype 'a regex =
    Empty
  | Eps
  | Class "('a \<times> 'a) list"
  | Alt "'a regex" "'a regex"
  | Seq "'a regex" "'a regex"
  | Star "'a regex"

definition Chr :: "'a \<Rightarrow> 'a regex" where
  "Chr c = Class [(c, c)]"

definition Plus :: "'a regex \<Rightarrow> 'a regex" where
  "Plus r = Seq r (Star r)"

fun in_class :: "'a::linorder \<Rightarrow> ('a \<times> 'a) list \<Rightarrow> bool" where
  "in_class c [] = False"
| "in_class c ((lo, hi) # rs) = ((lo \<le> c \<and> c \<le> hi) \<or> in_class c rs)"

fun nullable :: "'a regex \<Rightarrow> bool" where
  "nullable Empty = False"
| "nullable Eps = True"
| "nullable (Class rs) = False"
| "nullable (Alt r s) = (nullable r \<or> nullable s)"
| "nullable (Seq r s) = (nullable r \<and> nullable s)"
| "nullable (Star r) = True"

fun deriv :: "'a::linorder \<Rightarrow> 'a regex \<Rightarrow> 'a regex" where
  "deriv c Empty = Empty"
| "deriv c Eps = Empty"
| "deriv c (Class rs) = (if in_class c rs then Eps else Empty)"
| "deriv c (Alt r s) = Alt (deriv c r) (deriv c s)"
| "deriv c (Seq r s) =
     (if nullable r then Alt (Seq (deriv c r) s) (deriv c s) else Seq (deriv c r) s)"
| "deriv c (Star r) = Seq (deriv c r) (Star r)"

fun regex_test :: "'a::linorder regex \<Rightarrow> 'a list \<Rightarrow> bool" where
  "regex_test r [] = nullable r"
| "regex_test r (c # cs) = regex_test (deriv c r) cs"

text \<open>The strings a regular expression denotes: what "matches the pattern" means.\<close>

inductive_set star :: "'a list set \<Rightarrow> 'a list set" for A :: "'a list set" where
  star_Nil: "[] \<in> star A"
| star_App: "u \<in> A \<Longrightarrow> v \<in> star A \<Longrightarrow> u @ v \<in> star A"

definition conc :: "'a list set \<Rightarrow> 'a list set \<Rightarrow> 'a list set" where
  "conc A B = {w. \<exists>u v. w = u @ v \<and> u \<in> A \<and> v \<in> B}"

fun lang :: "'a::linorder regex \<Rightarrow> 'a list set" where
  "lang Empty = {}"
| "lang Eps = {[]}"
| "lang (Class rs) = {w. \<exists>c. w = [c] \<and> in_class c rs}"
| "lang (Alt r s) = lang r \<union> lang s"
| "lang (Seq r s) = conc (lang r) (lang s)"
| "lang (Star r) = star (lang r)"

section \<open>aws-memorydb: user.ts\<close>

datatype AuthenticationType = PASSWORD | IAM

text \<open>The string value of an enum member (\<open>PASSWORD = 'password'\<close>, \<open>IAM = 'iam'\<close>).\<close>

fun AuthenticationType_value :: "AuthenticationType \<Rightarrow> js_string" where
  "AuthenticationType_value PASSWORD = js ''password''"
| "AuthenticationType_value IAM = js ''iam''"

text \<open>
  \<open>SecretValue\<close> of aws-cdk-lib: an opaque handle around a raw string, which
  \<open>unsafeUnwrap()\<close> returns.
\<close>

datatype SecretValue = SecretValue js_string

fun unsafeUnwrap :: "SecretValue \<Rightarrow> js_string" where
  "unsafeUnwrap (SecretValue s) = s"

text \<open>An optional property (\<open>?:\<close>) is an \<open>option\<close>: \<open>None\<close> is \<open>undefined\<close>.\<close>

record UserProps =
  userName :: "js_string option"
  accessString :: "js_string option"
  authenticationType :: AuthenticationType
  passwords :: "SecretValue list option"

record UserAttributes =
  userName :: js_string

text \<open>The components \<open>formatArn\<close> is given in this file.\<close>

datatype ArnFormat = COLON_RESOURCE_NAME

record ArnComponents =
  service :: js_string
  resource :: js_string
  arnFormat :: "ArnFormat option"

record IUser =
  userArn :: js_string
  userName :: js_string

record AuthenticationMode =
  Type :: js_string
  Passwords :: "js_string list option"

record CfnUserProps =
  userName :: js_string
  accessString :: js_string
  authenticationMode :: AuthenticationMode

text \<open>\<open>new aws_memorydb.CfnUser(scope, id, props)\<close>: the external create-resource call.\<close>

datatype CfnUser = CfnUser js_string CfnUserProps

fun CfnUser_userName :: "CfnUser \<Rightarrow> js_string" where
  "CfnUser_userName (CfnUser i p) = CfnUserProps.userName p"

text \<open>
  \<open>UserBase.fromUserAttributes\<close>. \<open>Stack.of(this)\<close> is the stack of the scope and
  \<open>formatArn\<close> is the stack's method; both are parameters.
\<close>

definition fromUserAttributes ::
  "('stack \<Rightarrow> ArnComponents \<Rightarrow> js_string) \<Rightarrow> 'stack \<Rightarrow> UserAttributes \<Rightarrow> IUser" where
  "fromUserAttributes formatArn stack attrs =
     \<lparr> IUser.userArn = formatArn stack
         \<lparr> service = js ''memorydb'', resource = js ''user'', arnFormat = None \<rparr>,
       IUser.userName = UserAttributes.userName attrs \<rparr>"

text \<open>\<open>User.renderAuthenticationMode\<close>: an array is truthy also when it is empty.\<close>

definition renderAuthenticationMode :: "UserProps \<Rightarrow> AuthenticationMode" where
  "renderAuthenticationMode props =
     (let authenticationMode =
        \<lparr> Type = AuthenticationType_value (authenticationType props), Passwords = None \<rparr>
      in case passwords props of
           Some ps \<Rightarrow> authenticationMode \<lparr> Passwords := Some (map unsafeUnwrap ps) \<rparr>
         | None \<Rightarrow> authenticationMode)"

text \<open>The pattern of \<open>validateUserName\<close>: \<open>/^[A-Za-z][A-Za-z0-9]*(-[A-Za-z0-9]+)*$/\<close>.\<close>

definition letter :: "(16 word \<times> 16 word) list" where
  "letter = [(js_char CHR ''A'', js_char CHR ''Z''), (js_char CHR ''a'', js_char CHR ''z'')]"

definition alnum :: "(16 word \<times> 16 word) list" where
  "alnum = [(js_char CHR ''A'', js_char CHR ''Z''), (js_char CHR ''a'', js_char CHR ''z''),
            (js_char CHR ''0'', js_char CHR ''9'')]"

definition hyphen :: "16 word" where
  "hyphen = js_char CHR ''-''"

definition userName_pattern_regex :: "16 word regex" where
  "userName_pattern_regex =
     Seq (Class letter) (Seq (Star (Class alnum)) (Star (Seq (Chr hyphen) (Plus (Class alnum)))))"

text \<open>
  \<open>User.validateUserName\<close>. \<open>Token.isUnresolved\<close> belongs to aws-cdk-lib and is a parameter.
  \<open>Inr ()\<close> is the normal return of a \<open>void\<close> method.
\<close>

definition validateUserName :: "(js_string \<Rightarrow> bool) \<Rightarrow> UserProps \<Rightarrow> exn + unit" where
  "validateUserName isUnresolved props =
     (case UserProps.userName props of
        None \<Rightarrow> Inr ()
      | Some name \<Rightarrow>
          if isUnresolved name then Inr ()
          else if length name < 1 \<or> length name > 40
            then Inl (Error (userName_length (length name)))
          else if \<not> regex_test userName_pattern_regex name
            then Inl (Error (userName_pattern name))
          else Inr ())"

text \<open>\<open>User.validateAuthenticationSettings\<close>: \<open>!passwords\<close> holds for \<open>undefined\<close> only.\<close>

definition validateAuthenticationSettings :: "UserProps \<Rightarrow> exn + unit" where
  "validateAuthenticationSettings props =
     (let authenticationType = authenticationType props; passwords = passwords props
      in if authenticationType = PASSWORD \<and> passwords = None
           then Inl (Error passwords_required)
         else if authenticationType \<noteq> PASSWORD \<and> passwords \<noteq> None
           then Inl (Error passwords_not_allowed)
         else Inr ())"

text \<open>
  The \<open>User\<close> object, and its constructor. The private field \<open>props\<close> is the argument of
  each method above. The constructor returns the external create-resource calls it has
  issued, in order, next to its outcome: the exception thrown or the object built.
  \<open>lazyName\<close> is the string \<open>Lazy.string\<close> returns, and \<open>attrArn\<close> the attribute of the
  created \<open>CfnUser\<close>; both belong to aws-cdk-lib. \<open>this.physicalName\<close> is the
  \<open>physicalName\<close> that \<open>super\<close> was given.
\<close>

record User =
  userArn :: js_string
  userName :: js_string

definition createResource :: "js_string \<Rightarrow> CfnUserProps \<Rightarrow> CfnUser" where
  "createResource i p = CfnUser i p"

definition User_constructor ::
  "(js_string \<Rightarrow> bool) \<Rightarrow> (CfnUser \<Rightarrow> js_string) \<Rightarrow> js_string \<Rightarrow> UserProps \<Rightarrow>
     CfnUser list \<times> (exn + User)" where
  "User_constructor isUnresolved attrArn lazyName props =
     (let physicalName = (case UserProps.userName props of Some n \<Rightarrow> n | None \<Rightarrow> lazyName)
      in case validateUserName isUnresolved props of
           Inl e \<Rightarrow> ([], Inl e)
         | Inr _ \<Rightarrow>
        (case validateAuthenticationSettings props of
           Inl e \<Rightarrow> ([], Inl e)
         | Inr _ \<Rightarrow>
            let user = createResource (js ''Resource'')
                  \<lparr> CfnUserProps.userName =
                      (case UserProps.userName props of Some n \<Rightarrow> n | None \<Rightarrow> physicalName),
                    CfnUserProps.accessString =
                      (case UserProps.accessString props of
                         Some a \<Rightarrow> a | None \<Rightarrow> js ''off -@all''),
                    authenticationMode = renderAuthenticationMode props \<rparr>
            in ([user],
                Inr \<lparr> User.userArn = attrArn user, User.userName = CfnUser_userName user \<rparr>)))"

section \<open>aws-fis: experiment-template.ts\<close>

text \<open>
  The objects of aws-cdk-lib the file reads, each with the one attribute it reads, and the
  properties it passes to the constructs it creates.
\<close>

record IAlarm =
  alarmArn :: js_string

record IRole =
  roleArn :: js_string

record ILogGroup =
  logGroupArn :: js_string

record IBucket =
  bucketArn :: js_string

datatype ServicePrincipal = ServicePrincipal js_string

record RoleProps =
  assumedBy :: ServicePrincipal

datatype RetentionDays = ONE_MONTH

record LogGroupProps =
  retention :: RetentionDays

datatype BucketEncryption = KMS_MANAGED

record BucketProps =
  encryption :: BucketEncryption

text \<open>
  The interfaces of the file. \<open>'n\<close> is JavaScript's \<open>number\<close>, which the file only passes
  on; \<open>'t\<close> and \<open>'a\<close> are \<open>IFisTarget\<close> and \<open>IFisAction\<close>, declared in \<open>./target\<close> and
  \<open>./action\<close>. \<open>role\<close> is declared without \<open>?\<close>, but the constructor tests it, so it is
  an \<open>option\<close> here.
\<close>

record StopCondition =
  source :: js_string
  "value" :: "IAlarm option"

record 'n LogConfiguration =
  logSchemaVersion :: 'n
  cloudWatchLogLoggingEnabled :: bool
  cloudwatchLogGroup :: "ILogGroup option"
  s3LoggingEnabled :: bool
  s3LoggingBucket :: "IBucket option"
  s3LoggingPrefix :: "js_string option"

datatype AccountTargeting = MULTI_ACCOUNT | SINGLE_ACCOUNT

datatype EmptyTargetResolutionMode = FAIL | SKIP

record ('n, 't, 'a) ExperimentTemplateProps =
  description :: js_string
  role :: "IRole option"
  stopConditions :: "StopCondition list"
  targets :: "'t list"
  actions :: "'a list option"
  accountTargeting :: AccountTargeting
  emptyTargetResolutionMode :: EmptyTargetResolutionMode
  logConfiguration :: "'n LogConfiguration option"

text \<open>
  The properties of \<open>aws_fis.CfnExperimentTemplate\<close>, as far as the file fills them. An
  object used as a dictionary is a list of key and value.
\<close>

record ExperimentTemplateStopConditionProperty =
  source :: js_string
  "value" :: "js_string option"

record ExperimentTemplateTargetFilterProperty =
  path :: js_string
  "values" :: "js_string list"

record ExperimentTemplateTargetProperty =
  resourceType :: js_string
  selectionMode :: js_string
  filters :: "ExperimentTemplateTargetFilterProperty list"
  parameters :: "(js_string \<times> js_string) list"
  resourceArns :: "js_string list"
  resourceTags :: "(js_string \<times> js_string) list"

record ExperimentTemplateActionProperty =
  actionId :: js_string
  description :: js_string
  parameters :: "(js_string \<times> js_string) list"
  startAfter :: "js_string list"
  targets :: "(js_string \<times> js_string) list"

record ExperimentTemplateExperimentOptionsProperty =
  accountTargeting :: AccountTargeting
  emptyTargetResolutionMode :: EmptyTargetResolutionMode

record CloudWatchLogsConfigurationProperty =
  logGroupArn :: js_string

record S3ConfigurationProperty =
  bucketName :: js_string
  prefix :: "js_string option"

record 'n ExperimentTemplateLogConfigurationProperty =
  logSchemaVersion :: 'n
  cloudWatchLogsConfiguration :: CloudWatchLogsConfigurationProperty
  s3Configuration :: S3ConfigurationProperty

record 'n CfnExperimentTemplateProps =
  description :: js_string
  roleArn :: js_string
  stopConditions :: "ExperimentTemplateStopConditionProperty list"
  targets :: "(js_string \<times> ExperimentTemplateTargetProperty) list"
  actions :: "(js_string \<times> ExperimentTemplateActionProperty) list"
  experimentOptions :: ExperimentTemplateExperimentOptionsProperty
  logConfiguration :: "'n ExperimentTemplateLogConfigurationProperty option"

text \<open>
  The constructs \<open>new ...(this, id, props)\<close> creates under the experiment template, each
  with its id and properties.
\<close>

datatype 'n construct =
    Role js_string RoleProps
  | LogGroup js_string LogGroupProps
  | Bucket js_string BucketProps
  | CfnExperimentTemplate js_string "'n CfnExperimentTemplateProps"

text \<open>
  The fields of the class. The two logging fields are assigned only inside an \<open>if\<close> of the
  constructor, so they can be \<open>undefined\<close>.
\<close>

record ('n, 't, 'a) ExperimentTemplate =
  props :: "('n, 't, 'a) ExperimentTemplateProps"
  fisRole :: IRole
  cloudWatchLogsGroup :: "ILogGroup option"
  s3LoggingBucket :: "IBucket option"

text \<open>\<open>renderConditions\<close>: \<open>s.value?.alarmArn\<close> is \<open>undefined\<close> when \<open>s.value\<close> is.\<close>

definition renderConditions ::
  "('n, 't, 'a) ExperimentTemplate \<Rightarrow> ExperimentTemplateStopConditionProperty list" where
  "renderConditions this =
     map (\<lambda>s. \<lparr> ExperimentTemplateStopConditionProperty.source = StopCondition.source s,
                ExperimentTemplateStopConditionProperty.value =
                  (case StopCondition.value s of
                     None \<Rightarrow> None
                   | Some a \<Rightarrow> Some (alarmArn a)) \<rparr>)
       (ExperimentTemplateProps.stopConditions (props this))"

text \<open>
  \<open>renderLogConfiguration\<close>. The object literal is evaluated in order; reading
  \<open>logGroupArn\<close> or \<open>bucketArn\<close> of a field that is \<open>undefined\<close> throws.
\<close>

definition renderLogConfiguration ::
  "('n, 't, 'a) ExperimentTemplate \<Rightarrow> 'n LogConfiguration \<Rightarrow>
     exn + 'n ExperimentTemplateLogConfigurationProperty" where
  "renderLogConfiguration this logConfiguration' =
     (case cloudWatchLogsGroup this of
        None \<Rightarrow> Inl (TypeError ''logGroupArn'')
      | Some g \<Rightarrow>
     (case s3LoggingBucket this of
        None \<Rightarrow> Inl (TypeError ''bucketArn'')
      | Some b \<Rightarrow>
          Inr \<lparr> ExperimentTemplateLogConfigurationProperty.logSchemaVersion =
                  LogConfiguration.logSchemaVersion logConfiguration',
                cloudWatchLogsConfiguration =
                  \<lparr> CloudWatchLogsConfigurationProperty.logGroupArn = ILogGroup.logGroupArn g \<rparr>,
                s3Configuration =
                  \<lparr> bucketName = bucketArn b,
                    prefix =
                      (case ExperimentTemplateProps.logConfiguration (props this) of
                         None \<Rightarrow> None
                       | Some lc \<Rightarrow> s3LoggingPrefix lc) \<rparr> \<rparr>))"

text \<open>
  \<open>createExperimentTemplate\<close>: the properties it passes to
  \<open>new aws_fis.CfnExperimentTemplate(this, 'Resource', ...)\<close>, or the exception thrown while
  they are evaluated.
\<close>

definition createExperimentTemplate ::
  "('n, 't, 'a) ExperimentTemplate \<Rightarrow> exn + 'n CfnExperimentTemplateProps" where
  "createExperimentTemplate this =
     (case (case ExperimentTemplateProps.logConfiguration (props this) of
              None \<Rightarrow> Inr None
            | Some lc \<Rightarrow>
                (case renderLogConfiguration this lc of
                   Inl e \<Rightarrow> Inl e
                 | Inr r \<Rightarrow> Inr (Some r))) of
        Inl e \<Rightarrow> Inl e
      | Inr l \<Rightarrow>
          Inr \<lparr> CfnExperimentTemplateProps.description =
                  ExperimentTemplateProps.description (props this),
                CfnExperimentTemplateProps.roleArn = IRole.roleArn (fisRole this),
                CfnExperimentTemplateProps.stopConditions = renderConditions this,
                CfnExperimentTemplateProps.targets =
                  [(js ''tartsKey'',
                    \<lparr> resourceType = js ''resourceType'',
                      selectionMode = js ''selectionMode'',
                      filters = [\<lparr> path = js ''path'', values = [js ''values''] \<rparr>],
                      ExperimentTemplateTargetProperty.parameters =
                        [(js ''parametersKey'', js ''parameters'')],
                      resourceArns = [js ''resourceArns''],
                      resourceTags = [(js ''resourceTagsKey'', js ''resourceTags'')] \<rparr>)],
                CfnExperimentTemplateProps.actions =
                  [(js ''actionsKey'',
                    \<lparr> actionId = js ''actionId'',
                      ExperimentTemplateActionProperty.description = js ''description'',
                      ExperimentTemplateActionProperty.parameters =
                        [(js ''parametersKey'', js ''parameters'')],
                      startAfter = [js ''startAfter''],
                      ExperimentTemplateActionProperty.targets =
                        [(js ''targetsKey'', js ''targets'')] \<rparr>)],
                experimentOptions =
                  \<lparr> ExperimentTemplateExperimentOptionsProperty.accountTargeting =
                      ExperimentTemplateProps.accountTargeting (props this),
                    ExperimentTemplateExperimentOptionsProperty.emptyTargetResolutionMode =
                      ExperimentTemplateProps.emptyTargetResolutionMode (props this) \<rparr>,
                CfnExperimentTemplateProps.logConfiguration = l \<rparr>)"

text \<open>
  The constructor. \<open>new_Role\<close>, \<open>new_LogGroup\<close> and \<open>new_Bucket\<close> are the constructors of
  aws-cdk-lib: the object each returns for an id and properties. The result is the list of
  the constructs created, in order, and the outcome: the exception thrown or the object
  built. A construct created before an exception stays created.
\<close>

definition ExperimentTemplate_constructor ::
  "(js_string \<Rightarrow> RoleProps \<Rightarrow> IRole) \<Rightarrow> (js_string \<Rightarrow> LogGroupProps \<Rightarrow> ILogGroup) \<Rightarrow>
   (js_string \<Rightarrow> BucketProps \<Rightarrow> IBucket) \<Rightarrow> ('n, 't, 'a) ExperimentTemplateProps \<Rightarrow>
     'n construct list \<times> (exn + ('n, 't, 'a) ExperimentTemplate)" where
  "ExperimentTemplate_constructor new_Role new_LogGroup new_Bucket p =
     (let (fisRole', c1) =
        (case role p of
           Some r \<Rightarrow> (r, [])
         | None \<Rightarrow>
             (new_Role (js ''Role'')
                \<lparr> assumedBy = ServicePrincipal (js ''pipes.amazonaws.com'') \<rparr>,
              [Role (js ''Role'')
                \<lparr> assumedBy = ServicePrincipal (js ''pipes.amazonaws.com'') \<rparr>]));
          (cloudWatchLogsGroup', c2) =
        (case ExperimentTemplateProps.logConfiguration p of
           None \<Rightarrow> (None, [])
         | Some lc \<Rightarrow>
             if cloudWatchLogLoggingEnabled lc then
               (case cloudwatchLogGroup lc of
                  Some g \<Rightarrow> (Some g, [])
                | None \<Rightarrow>
                    (Some (new_LogGroup (js ''AppLogs'') \<lparr> retention = ONE_MONTH \<rparr>),
                     [LogGroup (js ''AppLogs'') \<lparr> retention = ONE_MONTH \<rparr>]))
             else (None, []));
          (s3LoggingBucket', c3) =
        (case ExperimentTemplateProps.logConfiguration p of
           None \<Rightarrow> (None, [])
         | Some lc \<Rightarrow>
             if s3LoggingEnabled lc then
               (case LogConfiguration.s3LoggingBucket lc of
                  Some b \<Rightarrow> (Some b, [])
                | None \<Rightarrow>
                    (Some (new_Bucket (js ''ArtifactsBucket'') \<lparr> encryption = KMS_MANAGED \<rparr>),
                     [Bucket (js ''ArtifactsBucket'') \<lparr> encryption = KMS_MANAGED \<rparr>]))
             else (None, []));
          this = \<lparr> props = p, fisRole = fisRole',
                   cloudWatchLogsGroup = cloudWatchLogsGroup',
                   s3LoggingBucket = s3LoggingBucket' \<rparr>
      in case createExperimentTemplate this of
           Inl e \<Rightarrow> (c1 @ c2 @ c3, Inl e)
         | Inr t \<Rightarrow> (c1 @ c2 @ c3 @ [CfnExperimentTemplate (js ''Resource'') t], Inr this))"

section \<open>A local reading of the user name pattern\<close>

text \<open>
  Used in the proofs only: every character is alphanumeric, or a hyphen that an alphanumeric
  character follows.
\<close>

fun tail_ok :: "js_string \<Rightarrow> bool" where
  "tail_ok [] = True"
| "tail_ok [c] = in_class c alnum"
| "tail_ok (c # d # ds) =
     ((in_class c alnum \<or> (c = hyphen \<and> in_class d alnum)) \<and> tail_ok (d # ds))"

section \<open>The matcher decides the language\<close>

lemma Nil_in_conc: "[] \<in> conc A B \<longleftrightarrow> [] \<in> A \<and> [] \<in> B"
  by (auto simp: conc_def)

lemma Cons_in_conc:
  "c # w \<in> conc A B \<longleftrightarrow>
     (\<exists>u v. w = u @ v \<and> c # u \<in> A \<and> v \<in> B) \<or> ([] \<in> A \<and> c # w \<in> B)"
proof
  assume "c # w \<in> conc A B"
  then obtain u v where uv: "c # w = u @ v" "u \<in> A" "v \<in> B"
    by (auto simp: conc_def)
  show "(\<exists>u v. w = u @ v \<and> c # u \<in> A \<and> v \<in> B) \<or> ([] \<in> A \<and> c # w \<in> B)"
  proof (cases u)
    case Nil
    with uv show ?thesis by simp
  next
    case (Cons a u')
    with uv have "w = u' @ v" "c # u' \<in> A" by auto
    with uv show ?thesis by blast
  qed
next
  assume "(\<exists>u v. w = u @ v \<and> c # u \<in> A \<and> v \<in> B) \<or> ([] \<in> A \<and> c # w \<in> B)"
  then show "c # w \<in> conc A B"
  proof
    assume "\<exists>u v. w = u @ v \<and> c # u \<in> A \<and> v \<in> B"
    then obtain u v where "w = u @ v" "c # u \<in> A" "v \<in> B" by blast
    then have "c # w = (c # u) @ v \<and> c # u \<in> A \<and> v \<in> B" by simp
    then show ?thesis unfolding conc_def by blast
  next
    assume "[] \<in> A \<and> c # w \<in> B"
    then have "c # w = [] @ (c # w) \<and> [] \<in> A \<and> c # w \<in> B" by simp
    then show ?thesis unfolding conc_def by blast
  qed
qed

lemma star_Cons_split:
  assumes "w \<in> star A" and "w = c # x"
  shows "\<exists>u v. x = u @ v \<and> c # u \<in> A \<and> v \<in> star A"
  using assms
proof (induction rule: star.induct)
  case star_Nil
  then show ?case by simp
next
  case (star_App u v)
  show ?case
  proof (cases u)
    case Nil
    with star_App show ?thesis by simp
  next
    case (Cons a u')
    with star_App.prems have "x = u' @ v" "a = c" by auto
    with Cons star_App.hyps show ?thesis by blast
  qed
qed

lemma Cons_in_star:
  "c # w \<in> star A \<longleftrightarrow> (\<exists>u v. w = u @ v \<and> c # u \<in> A \<and> v \<in> star A)"
proof
  assume "c # w \<in> star A"
  then show "\<exists>u v. w = u @ v \<and> c # u \<in> A \<and> v \<in> star A"
    by (rule star_Cons_split) simp
next
  assume "\<exists>u v. w = u @ v \<and> c # u \<in> A \<and> v \<in> star A"
  then obtain u v where uv: "w = u @ v" "c # u \<in> A" "v \<in> star A" by blast
  from uv(2,3) have "(c # u) @ v \<in> star A" by (rule star_App)
  with uv(1) show "c # w \<in> star A" by simp
qed

lemma nullable_iff: "nullable r \<longleftrightarrow> [] \<in> lang r"
  by (induction r) (simp_all add: Nil_in_conc star_Nil)

lemma lang_deriv: "w \<in> lang (deriv c r) \<longleftrightarrow> c # w \<in> lang r"
proof (induction r arbitrary: w)
  case (Seq r s)
  then show ?case
    by (simp add: Cons_in_conc nullable_iff) (auto simp: conc_def)
next
  case (Star r)
  then show ?case
    by (simp add: Cons_in_star) (auto simp: conc_def)
qed (auto)

lemma regex_test_iff: "regex_test r w \<longleftrightarrow> w \<in> lang r"
  by (induction w arbitrary: r) (simp_all add: nullable_iff lang_deriv)

section \<open>The language of the user name pattern\<close>

lemma letter_alnum: "in_class c letter \<Longrightarrow> in_class c alnum"
  by (auto simp: letter_def alnum_def)

lemma alnum_not_hyphen: "in_class c alnum \<Longrightarrow> c \<noteq> hyphen"
  by (auto simp: alnum_def hyphen_def js_char_def)

lemma digit_not_letter:
  "in_class c [(js_char CHR ''0'', js_char CHR ''9'')] \<Longrightarrow> \<not> in_class c letter"
  by (auto simp: letter_def js_char_def word_le_nat_alt)

lemma star_Class_iff: "w \<in> star (lang (Class rs)) \<longleftrightarrow> (\<forall>c\<in>set w. in_class c rs)"
proof
  assume "w \<in> star (lang (Class rs))"
  then show "\<forall>c\<in>set w. in_class c rs"
    by (induction rule: star.induct) auto
next
  assume "\<forall>c\<in>set w. in_class c rs"
  then show "w \<in> star (lang (Class rs))"
  proof (induction w)
    case Nil
    show ?case by (rule star_Nil)
  next
    case (Cons c w)
    then have "[c] \<in> lang (Class rs)" "w \<in> star (lang (Class rs))" by simp_all
    then have "[c] @ w \<in> star (lang (Class rs))" by (rule star_App)
    then show ?case by simp
  qed
qed

lemma tail_ok_Cons: "in_class c alnum \<Longrightarrow> tail_ok w \<Longrightarrow> tail_ok (c # w)"
  by (cases w) simp_all

lemma tail_ok_tl: "tail_ok (c # w) \<Longrightarrow> tail_ok w"
  by (cases w) simp_all

lemma tail_ok_append: "\<forall>c\<in>set u. in_class c alnum \<Longrightarrow> tail_ok w \<Longrightarrow> tail_ok (u @ w)"
  by (induction u) (simp_all add: tail_ok_Cons)

lemma lang_hyphen_group:
  "v \<in> lang (Seq (Chr hyphen) (Plus (Class alnum))) \<longleftrightarrow>
     (\<exists>d u. v = hyphen # d # u \<and> in_class d alnum \<and> (\<forall>c\<in>set u. in_class c alnum))"
proof
  assume "v \<in> lang (Seq (Chr hyphen) (Plus (Class alnum)))"
  then obtain x y z where v: "v = x @ y @ z" and x: "x \<in> lang (Class [(hyphen, hyphen)])"
    and y: "y \<in> lang (Class alnum)" and z: "z \<in> star (lang (Class alnum))"
    by (auto simp: Chr_def Plus_def conc_def)
  from x have "x = [hyphen]" by auto
  moreover from y obtain d where "y = [d]" "in_class d alnum" by auto
  moreover from z have "\<forall>c\<in>set z. in_class c alnum" by (simp only: star_Class_iff)
  ultimately show "\<exists>d u. v = hyphen # d # u \<and> in_class d alnum \<and> (\<forall>c\<in>set u. in_class c alnum)"
    using v by simp
next
  assume "\<exists>d u. v = hyphen # d # u \<and> in_class d alnum \<and> (\<forall>c\<in>set u. in_class c alnum)"
  then obtain d u where v: "v = hyphen # d # u" and d: "in_class d alnum"
    and u: "\<forall>c\<in>set u. in_class c alnum" by blast
  have "[hyphen] \<in> lang (Chr hyphen)" by (simp add: Chr_def)
  moreover have "[d] \<in> lang (Class alnum)" using d by simp
  moreover have "u \<in> star (lang (Class alnum))" using u by (simp only: star_Class_iff)
  ultimately have "[hyphen] @ [d] @ u \<in> conc (lang (Chr hyphen)) (conc (lang (Class alnum)) (star (lang (Class alnum))))"
    unfolding conc_def by blast
  then show "v \<in> lang (Seq (Chr hyphen) (Plus (Class alnum)))"
    using v by (simp add: Plus_def)
qed

lemma star_hyphen_group_tail_ok:
  "w \<in> star (lang (Seq (Chr hyphen) (Plus (Class alnum)))) \<Longrightarrow> tail_ok w"
proof (induction rule: star.induct)
  case star_Nil
  show ?case by simp
next
  case (star_App v w)
  from star_App.hyps(1) obtain d u where v: "v = hyphen # d # u" and d: "in_class d alnum"
    and u: "\<forall>c\<in>set u. in_class c alnum"
    by (auto simp only: lang_hyphen_group)
  from d u have "\<forall>c\<in>set (d # u). in_class c alnum" by simp
  then have "tail_ok ((d # u) @ w)" using star_App.IH by (rule tail_ok_append)
  with v d show ?case by simp
qed

lemma star_hyphen_group_hd:
  "w \<in> star (lang (Seq (Chr hyphen) (Plus (Class alnum)))) \<Longrightarrow> w = [] \<or> hd w = hyphen"
  by (induction rule: star.induct) (auto simp only: lang_hyphen_group list.sel append_Cons)

lemma pattern_lang_tail_ok:
  assumes "n \<in> lang userName_pattern_regex"
  shows "\<exists>a x. n = a # x \<and> in_class a letter \<and> tail_ok x"
proof -
  from assms obtain p u w where n: "n = p @ u @ w" and p: "p \<in> lang (Class letter)"
    and u: "u \<in> star (lang (Class alnum))"
    and w: "w \<in> star (lang (Seq (Chr hyphen) (Plus (Class alnum))))"
    by (auto simp: userName_pattern_regex_def conc_def)
  from p obtain a where a: "p = [a]" "in_class a letter" by auto
  from u have "\<forall>c\<in>set u. in_class c alnum" by (simp only: star_Class_iff)
  moreover from w have "tail_ok w" by (rule star_hyphen_group_tail_ok)
  ultimately have "tail_ok (u @ w)" by (rule tail_ok_append)
  with n a show ?thesis by simp
qed

lemma tail_ok_last: "tail_ok w \<Longrightarrow> w \<noteq> [] \<Longrightarrow> in_class (last w) alnum"
  by (induction w rule: tail_ok.induct) simp_all

lemma tail_ok_no_double_hyphen: "tail_ok (u @ hyphen # hyphen # v) \<Longrightarrow> False"
proof (induction u)
  case Nil
  then show ?case using alnum_not_hyphen by auto
next
  case (Cons c u)
  then show ?case using tail_ok_tl by auto
qed

lemma tail_ok_set: "tail_ok w \<Longrightarrow> c \<in> set w \<Longrightarrow> in_class c alnum \<or> c = hyphen"
  by (induction w rule: tail_ok.induct) auto

lemma tail_ok_lang:
  "tail_ok x \<Longrightarrow>
     x \<in> conc (star (lang (Class alnum))) (star (lang (Seq (Chr hyphen) (Plus (Class alnum)))))"
proof (induction x rule: tail_ok.induct)
  case 1
  have "[] @ [] \<in> conc (star (lang (Class alnum))) (star (lang (Seq (Chr hyphen) (Plus (Class alnum)))))"
    unfolding conc_def using star_Nil by blast
  then show ?case by simp
next
  case (2 c)
  then have "[c] \<in> star (lang (Class alnum))" by (simp only: star_Class_iff) simp
  then have "[c] @ [] \<in> conc (star (lang (Class alnum))) (star (lang (Seq (Chr hyphen) (Plus (Class alnum)))))"
    unfolding conc_def using star_Nil by blast
  then show ?case by simp
next
  case (3 c d ds)
  from "3.prems" have ok: "tail_ok (d # ds)" by simp
  with "3.IH" obtain u w where dds: "d # ds = u @ w" and u: "u \<in> star (lang (Class alnum))"
    and w: "w \<in> star (lang (Seq (Chr hyphen) (Plus (Class alnum))))"
    by (auto simp: conc_def)
  from u have ua: "\<forall>c\<in>set u. in_class c alnum" by (simp only: star_Class_iff)
  show ?case
  proof (cases "in_class c alnum")
    case True
    with ua have "\<forall>e\<in>set (c # u). in_class e alnum" by simp
    then have "c # u \<in> star (lang (Class alnum))" by (simp only: star_Class_iff)
    with w have "(c # u) @ w \<in> conc (star (lang (Class alnum))) (star (lang (Seq (Chr hyphen) (Plus (Class alnum)))))"
      unfolding conc_def by blast
    with dds show ?thesis by simp
  next
    case False
    with "3.prems" have c: "c = hyphen" and d: "in_class d alnum" by auto
    have "u \<noteq> []"
    proof
      assume "u = []"
      with dds have "w = d # ds" by simp
      with star_hyphen_group_hd [OF w] have "d = hyphen" by simp
      with d alnum_not_hyphen show False by blast
    qed
    then obtain u' where u': "u = d # u'" using dds by (cases u) auto
    with ua d have "hyphen # u \<in> lang (Seq (Chr hyphen) (Plus (Class alnum)))"
      by (simp only: lang_hyphen_group) simp
    then have "(hyphen # u) @ w \<in> star (lang (Seq (Chr hyphen) (Plus (Class alnum))))"
      using w by (rule star_App)
    then have "[] @ ((hyphen # u) @ w) \<in> conc (star (lang (Class alnum))) (star (lang (Seq (Chr hyphen) (Plus (Class alnum)))))"
      unfolding conc_def using star_Nil by blast
    with c dds show ?thesis by simp
  qed
qed

lemma tail_ok_pattern_lang:
  assumes "in_class a letter" and "tail_ok x"
  shows "a # x \<in> lang userName_pattern_regex"
proof -
  have "[a] \<in> lang (Class letter)" using assms(1) by simp
  moreover note tail_ok_lang [OF assms(2)]
  ultimately have "[a] @ x \<in> conc (lang (Class letter))
      (conc (star (lang (Class alnum))) (star (lang (Seq (Chr hyphen) (Plus (Class alnum))))))"
    unfolding conc_def [of "lang (Class letter)"] by blast
  then show ?thesis by (simp add: userName_pattern_regex_def)
qed

lemma tail_ok_plain:
  "(\<forall>c\<in>set w. in_class c alnum \<or> c = hyphen) \<Longrightarrow> (w \<noteq> [] \<Longrightarrow> last w \<noteq> hyphen) \<Longrightarrow>
   (\<forall>u v. w \<noteq> u @ hyphen # hyphen # v) \<Longrightarrow> tail_ok w"
proof (induction w rule: tail_ok.induct)
  case 1
  show ?case by simp
next
  case (2 c)
  then show ?case by auto
next
  case (3 c d ds)
  have nohh: "\<forall>u v. d # ds \<noteq> u @ hyphen # hyphen # v"
  proof (intro allI notI)
    fix u v assume "d # ds = u @ hyphen # hyphen # v"
    then have "c # d # ds = (c # u) @ hyphen # hyphen # v" by simp
    with "3.prems"(3) show False by blast
  qed
  from "3.prems" have "tail_ok (d # ds)"
    by (intro "3.IH") (use nohh in auto)
  moreover have "in_class c alnum \<or> (c = hyphen \<and> in_class d alnum)"
  proof (cases "in_class c alnum")
    case True then show ?thesis by simp
  next
    case False
    with "3.prems"(1) have c: "c = hyphen" by simp
    have "d \<noteq> hyphen"
    proof
      assume "d = hyphen"
      with c have "c # d # ds = [] @ hyphen # hyphen # ds" by simp
      with "3.prems"(3) show False by blast
    qed
    with "3.prems"(1) c show ?thesis by auto
  qed
  ultimately show ?case by simp
qed

lemma userName_pattern_lang_iff:
  "n \<in> lang userName_pattern_regex \<longleftrightarrow>
     n \<noteq> [] \<and> in_class (hd n) letter \<and> (\<forall>c\<in>set n. in_class c alnum \<or> c = hyphen) \<and>
     last n \<noteq> hyphen \<and> (\<forall>u v. n \<noteq> u @ hyphen # hyphen # v)"
proof
  assume "n \<in> lang userName_pattern_regex"
  then obtain a x where n: "n = a # x" and a: "in_class a letter" and x: "tail_ok x"
    using pattern_lang_tail_ok by blast
  from a have "in_class a alnum" by (rule letter_alnum)
  then have ok: "tail_ok n" using x unfolding n by (rule tail_ok_Cons)
  have "in_class (last n) alnum" using ok n by (intro tail_ok_last) simp_all
  then have "last n \<noteq> hyphen" using alnum_not_hyphen by blast
  moreover have "\<forall>u v. n \<noteq> u @ hyphen # hyphen # v"
    using ok tail_ok_no_double_hyphen by metis
  moreover have "\<forall>c\<in>set n. in_class c alnum \<or> c = hyphen"
    using ok tail_ok_set by blast
  ultimately show "n \<noteq> [] \<and> in_class (hd n) letter \<and>
     (\<forall>c\<in>set n. in_class c alnum \<or> c = hyphen) \<and>
     last n \<noteq> hyphen \<and> (\<forall>u v. n \<noteq> u @ hyphen # hyphen # v)"
    using n a by simp
next
  assume h: "n \<noteq> [] \<and> in_class (hd n) letter \<and>
     (\<forall>c\<in>set n. in_class c alnum \<or> c = hyphen) \<and>
     last n \<noteq> hyphen \<and> (\<forall>u v. n \<noteq> u @ hyphen # hyphen # v)"
  then obtain a x where n: "n = a # x" by (cases n) auto
  with h have a: "in_class a letter" by simp
  have "tail_ok x"
  proof (rule tail_ok_plain)
    show "\<forall>c\<in>set x. in_class c alnum \<or> c = hyphen" using h n by simp
    show "last x \<noteq> hyphen" if "x \<noteq> []" using h n that by simp
    show "\<forall>u v. x \<noteq> u @ hyphen # hyphen # v"
    proof (intro allI notI)
      fix u v assume "x = u @ hyphen # hyphen # v"
      then have "n = (a # u) @ hyphen # hyphen # v" using n by simp
      with h show False by blast
    qed
  qed
  with a show "n \<in> lang userName_pattern_regex" unfolding n by (rule tail_ok_pattern_lang)
qed

lemmas pattern_eval = userName_pattern_regex_def letter_def alnum_def hyphen_def Chr_def Plus_def
      js_def js_char_def

section \<open>Properties of user.ts\<close>

text \<open>
  C4. \<open>validateUserName\<close> returns normally when the name is absent or unresolved.
  Otherwise it throws for a name of length 0 or more than 40 (the length message), and for a
  name that contains two consecutive hyphens, starts or ends with a hyphen, or starts with a
  digit; and it returns normally for a name of length 1 to 40 in the language of the pattern.
\<close>

theorem validateUserName_spec:
  "(UserProps.userName p = None \<longrightarrow> validateUserName isUnresolved p = Inr ()) \<and>
   (UserProps.userName p = Some n \<and> isUnresolved n \<longrightarrow>
      validateUserName isUnresolved p = Inr ()) \<and>
   (UserProps.userName p = Some n \<and> \<not> isUnresolved n \<and> (length n = 0 \<or> 40 < length n) \<longrightarrow>
      validateUserName isUnresolved p = Inl (Error (userName_length (length n)))) \<and>
   (UserProps.userName p = Some n \<and> \<not> isUnresolved n \<and>
      ((\<exists>u v. n = u @ [hyphen, hyphen] @ v) \<or> (n \<noteq> [] \<and> hd n = hyphen) \<or>
       (n \<noteq> [] \<and> last n = hyphen) \<or>
       (n \<noteq> [] \<and> in_class (hd n) [(js_char CHR ''0'', js_char CHR ''9'')])) \<longrightarrow>
      (\<exists>m. validateUserName isUnresolved p = Inl (Error m))) \<and>
   (UserProps.userName p = Some n \<and> \<not> isUnresolved n \<and> 1 \<le> length n \<and> length n \<le> 40 \<and>
      n \<in> lang userName_pattern_regex \<longrightarrow>
      validateUserName isUnresolved p = Inr ())"
proof (intro conjI impI)
  assume "UserProps.userName p = None"
  then show "validateUserName isUnresolved p = Inr ()"
    by (simp add: validateUserName_def)
next
  assume "UserProps.userName p = Some n \<and> isUnresolved n"
  then show "validateUserName isUnresolved p = Inr ()"
    by (simp add: validateUserName_def)
next
  assume "UserProps.userName p = Some n \<and> \<not> isUnresolved n \<and> (length n = 0 \<or> 40 < length n)"
  then show "validateUserName isUnresolved p = Inl (Error (userName_length (length n)))"
    by (auto simp: validateUserName_def)
next
  assume h: "UserProps.userName p = Some n \<and> \<not> isUnresolved n \<and>
      ((\<exists>u v. n = u @ [hyphen, hyphen] @ v) \<or> (n \<noteq> [] \<and> hd n = hyphen) \<or>
       (n \<noteq> [] \<and> last n = hyphen) \<or>
       (n \<noteq> [] \<and> in_class (hd n) [(js_char CHR ''0'', js_char CHR ''9'')]))"
  have "n \<notin> lang userName_pattern_regex"
  proof
    assume "n \<in> lang userName_pattern_regex"
    then have c: "n \<noteq> [] \<and> in_class (hd n) letter \<and>
        last n \<noteq> hyphen \<and> (\<forall>u v. n \<noteq> u @ hyphen # hyphen # v)"
      using userName_pattern_lang_iff [of n] by blast
    then have "hd n \<noteq> hyphen" using letter_alnum alnum_not_hyphen by blast
    moreover have "\<not> in_class (hd n) [(js_char CHR ''0'', js_char CHR ''9'')]"
      using c digit_not_letter by blast
    moreover have "\<not> (\<exists>u v. n = u @ [hyphen, hyphen] @ v)" using c by simp
    ultimately show False using h c by blast
  qed
  then have "\<not> regex_test userName_pattern_regex n" by (simp add: regex_test_iff)
  with h show "\<exists>m. validateUserName isUnresolved p = Inl (Error m)"
    by (simp add: validateUserName_def)
next
  assume h: "UserProps.userName p = Some n \<and> \<not> isUnresolved n \<and> 1 \<le> length n \<and>
      length n \<le> 40 \<and> n \<in> lang userName_pattern_regex"
  then have "regex_test userName_pattern_regex n" by (simp add: regex_test_iff)
  with h show "validateUserName isUnresolved p = Inr ()"
    by (auto simp: validateUserName_def)
qed

theorem validateUserName_spec_witness:
  "validateUserName (\<lambda>s. False)
     \<lparr> UserProps.userName = None, UserProps.accessString = None,
       authenticationType = IAM, passwords = None \<rparr> = Inr () \<and>
   validateUserName (\<lambda>s. True)
     \<lparr> UserProps.userName = Some (js ''-x''), UserProps.accessString = None,
       authenticationType = IAM, passwords = None \<rparr> = Inr () \<and>
   validateUserName (\<lambda>s. False)
     \<lparr> UserProps.userName = Some [], UserProps.accessString = None,
       authenticationType = IAM, passwords = None \<rparr> = Inl (Error (userName_length 0)) \<and>
   (\<exists>m. validateUserName (\<lambda>s. False)
     \<lparr> UserProps.userName = Some (js ''a--b''), UserProps.accessString = None,
       authenticationType = IAM, passwords = None \<rparr> = Inl (Error m)) \<and>
   validateUserName (\<lambda>s. False)
     \<lparr> UserProps.userName = Some (js ''alice-1''), UserProps.accessString = None,
       authenticationType = IAM, passwords = None \<rparr> = Inr ()"
proof -
  let ?p = "\<lambda>n. \<lparr> UserProps.userName = n, UserProps.accessString = None,
       authenticationType = IAM, passwords = None \<rparr>"
  have hh: "\<exists>u v. js ''a--b'' = u @ [hyphen, hyphen] @ v"
  proof (intro exI)
    show "js ''a--b'' = js ''a'' @ [hyphen, hyphen] @ js ''b''"
      by (simp add: js_def hyphen_def)
  qed
  have "regex_test userName_pattern_regex (js ''alice-1'')"
    by (simp add: pattern_eval)
  then have al: "js ''alice-1'' \<in> lang userName_pattern_regex"
    by (simp add: regex_test_iff)
  have len: "1 \<le> length (js ''alice-1'') \<and> length (js ''alice-1'') \<le> 40"
    by (simp add: js_def)
  show ?thesis
    using validateUserName_spec [of "?p None" "\<lambda>s. False" "[]"]
      validateUserName_spec [of "?p (Some (js ''-x''))" "\<lambda>s. True" "js ''-x''"]
      validateUserName_spec [of "?p (Some [])" "\<lambda>s. False" "[]"]
      validateUserName_spec [of "?p (Some (js ''a--b''))" "\<lambda>s. False" "js ''a--b''"]
      validateUserName_spec [of "?p (Some (js ''alice-1''))" "\<lambda>s. False" "js ''alice-1''"]
      hh al len
    by simp
qed

lemma validateAuthenticationSettings_cases:
  "validateAuthenticationSettings p =
     (case (authenticationType p, passwords p) of
        (PASSWORD, None) \<Rightarrow> Inl (Error passwords_required)
      | (PASSWORD, Some ps) \<Rightarrow> Inr ()
      | (IAM, None) \<Rightarrow> Inr ()
      | (IAM, Some ps) \<Rightarrow> Inl (Error passwords_not_allowed))"
  by (cases "authenticationType p"; cases "passwords p")
     (simp_all add: validateAuthenticationSettings_def)

text \<open>
  C1. Type PASSWORD with the empty credential list \<open>[]\<close>: the validation returns normally
  and the constructor issues the create call, with \<open>Passwords: []\<close>. The documentation of
  \<open>passwords\<close> and the message of the first check both ask for at least one password.
  \<open>validateAuthenticationSettings_cases\<close> above gives the four cases of the validation.
\<close>

theorem PASSWORD_with_empty_passwords_accepted:
  "validateAuthenticationSettings
     \<lparr> UserProps.userName = None, UserProps.accessString = None,
       authenticationType = PASSWORD, passwords = Some [] \<rparr> = Inr () \<and>
   User_constructor isUnresolved attrArn lazyName
     \<lparr> UserProps.userName = None, UserProps.accessString = None,
       authenticationType = PASSWORD, passwords = Some [] \<rparr> =
     ([CfnUser (js ''Resource'')
         \<lparr> CfnUserProps.userName = lazyName, CfnUserProps.accessString = js ''off -@all'',
           authenticationMode = \<lparr> Type = js ''password'', Passwords = Some [] \<rparr> \<rparr>],
      Inr \<lparr> User.userArn = attrArn (CfnUser (js ''Resource'')
         \<lparr> CfnUserProps.userName = lazyName, CfnUserProps.accessString = js ''off -@all'',
           authenticationMode = \<lparr> Type = js ''password'', Passwords = Some [] \<rparr> \<rparr>),
            User.userName = lazyName \<rparr>)"
  by (simp add: validateAuthenticationSettings_def User_constructor_def validateUserName_def
      createResource_def renderAuthenticationMode_def Let_def)

text \<open>
  C5. The constructor either passes both validations and issues exactly one create call, or
  throws the exception of the first validation that fails, having issued no create call.
\<close>

theorem User_constructor_atomic:
  "(validateUserName isUnresolved p = Inr () \<and> validateAuthenticationSettings p = Inr () \<and>
      (\<exists>c u. User_constructor isUnresolved attrArn lazyName p =
                ([CfnUser (js ''Resource'') c], Inr u))) \<or>
   (\<exists>e. (validateUserName isUnresolved p = Inl e \<or>
          (validateUserName isUnresolved p = Inr () \<and>
           validateAuthenticationSettings p = Inl e)) \<and>
        User_constructor isUnresolved attrArn lazyName p = ([], Inl e))"
proof (cases "validateUserName isUnresolved p")
  case (Inl e)
  then show ?thesis by (simp add: User_constructor_def)
next
  case (Inr u)
  then have v: "validateUserName isUnresolved p = Inr ()" by simp
  show ?thesis
  proof (cases "validateAuthenticationSettings p")
    case (Inl e)
    with v show ?thesis by (simp add: User_constructor_def)
  next
    case (Inr u')
    with v show ?thesis by (simp add: User_constructor_def createResource_def Let_def)
  qed
qed

text \<open>
  C7. The rendered authentication descriptor is \<open>{Type: authenticationType}\<close>, with a
  \<open>Passwords\<close> field holding the unwrapped secrets if and only if a credential list was
  supplied; type PASSWORD with the one secret "secretA" renders
  \<open>{Type: "password", Passwords: ["secretA"]}\<close>.
\<close>

theorem renderAuthenticationMode_descriptor:
  "Type (renderAuthenticationMode p) = AuthenticationType_value (authenticationType p) \<and>
   Passwords (renderAuthenticationMode p) = map_option (map unsafeUnwrap) (passwords p) \<and>
   (Passwords (renderAuthenticationMode p) = None) = (passwords p = None) \<and>
   renderAuthenticationMode
     \<lparr> UserProps.userName = n, UserProps.accessString = a, authenticationType = PASSWORD,
       passwords = Some [SecretValue (js ''secretA'')] \<rparr>
     = \<lparr> Type = js ''password'', Passwords = Some [js ''secretA''] \<rparr>"
  by (cases "passwords p") (simp_all add: renderAuthenticationMode_def)

text \<open>
  C8. The name "alice-1", the access string "on ~* +@all" and type IAM render exactly
  \<open>{userName: "alice-1", accessString: "on ~* +@all", authenticationMode: {Type: "iam"}}\<close>;
  and whenever the access string is absent and both validations pass, the one rendered
  descriptor has the access string "off -@all".
\<close>

theorem User_constructor_render:
  "User_constructor isUnresolved attrArn lazyName
     \<lparr> UserProps.userName = Some (js ''alice-1''),
       UserProps.accessString = Some (js ''on ~* +@all''),
       authenticationType = IAM, passwords = None \<rparr> =
     ([CfnUser (js ''Resource'')
         \<lparr> CfnUserProps.userName = js ''alice-1'',
           CfnUserProps.accessString = js ''on ~* +@all'',
           authenticationMode = \<lparr> Type = js ''iam'', Passwords = None \<rparr> \<rparr>],
      Inr \<lparr> User.userArn = attrArn (CfnUser (js ''Resource'')
               \<lparr> CfnUserProps.userName = js ''alice-1'',
                 CfnUserProps.accessString = js ''on ~* +@all'',
                 authenticationMode = \<lparr> Type = js ''iam'', Passwords = None \<rparr> \<rparr>),
            User.userName = js ''alice-1'' \<rparr>) \<and>
   (UserProps.accessString p = None \<and> validateUserName isUnresolved p = Inr () \<and>
    validateAuthenticationSettings p = Inr () \<longrightarrow>
      (\<exists>c u. User_constructor isUnresolved attrArn lazyName p =
                ([CfnUser (js ''Resource'') c], Inr u) \<and>
             CfnUserProps.accessString c = js ''off -@all''))"
proof (intro conjI impI)
  let ?p = "\<lparr> UserProps.userName = Some (js ''alice-1''),
       UserProps.accessString = Some (js ''on ~* +@all''),
       authenticationType = IAM, passwords = None \<rparr>"
  have t: "regex_test userName_pattern_regex (js ''alice-1'')"
    by (simp add: pattern_eval)
  have l: "length (js ''alice-1'') = 7" by (simp add: js_def)
  have "validateUserName isUnresolved ?p = Inr ()"
    using t l by (simp add: validateUserName_def)
  moreover have "validateAuthenticationSettings ?p = Inr ()"
    by (simp add: validateAuthenticationSettings_def)
  ultimately show "User_constructor isUnresolved attrArn lazyName ?p =
     ([CfnUser (js ''Resource'')
         \<lparr> CfnUserProps.userName = js ''alice-1'',
           CfnUserProps.accessString = js ''on ~* +@all'',
           authenticationMode = \<lparr> Type = js ''iam'', Passwords = None \<rparr> \<rparr>],
      Inr \<lparr> User.userArn = attrArn (CfnUser (js ''Resource'')
               \<lparr> CfnUserProps.userName = js ''alice-1'',
                 CfnUserProps.accessString = js ''on ~* +@all'',
                 authenticationMode = \<lparr> Type = js ''iam'', Passwords = None \<rparr> \<rparr>),
            User.userName = js ''alice-1'' \<rparr>)"
    by (simp add: User_constructor_def createResource_def renderAuthenticationMode_def Let_def)
next
  assume "UserProps.accessString p = None \<and> validateUserName isUnresolved p = Inr () \<and>
    validateAuthenticationSettings p = Inr ()"
  then show "\<exists>c u. User_constructor isUnresolved attrArn lazyName p =
                ([CfnUser (js ''Resource'') c], Inr u) \<and>
             CfnUserProps.accessString c = js ''off -@all''"
    by (simp add: User_constructor_def createResource_def Let_def)
qed

theorem User_constructor_render_witness:
  "\<exists>c u. User_constructor (\<lambda>s. False) (\<lambda>r. js ''arn'') (js ''generated'')
            \<lparr> UserProps.userName = None, UserProps.accessString = None,
              authenticationType = IAM, passwords = None \<rparr> =
            ([CfnUser (js ''Resource'') c], Inr u) \<and>
          CfnUserProps.accessString c = js ''off -@all''"
proof -
  let ?p = "\<lparr> UserProps.userName = None, UserProps.accessString = None,
              authenticationType = IAM, passwords = None \<rparr>"
  have "UserProps.accessString ?p = None" by simp
  moreover have "validateUserName (\<lambda>s. False) ?p = Inr ()"
    by (simp add: validateUserName_def)
  moreover have "validateAuthenticationSettings ?p = Inr ()"
    by (simp add: validateAuthenticationSettings_def)
  ultimately show ?thesis
    using User_constructor_render [of "\<lambda>s. False" "\<lambda>r. js ''arn''" "js ''generated''" ?p]
    by blast
qed

text \<open>
  C10. Two imports into the same stack have the same \<open>userArn\<close>: it is formatted from the
  service "memorydb" and the resource "user" only, while \<open>userName\<close> is the attribute given.
\<close>

theorem fromUserAttributes_userArn:
  "IUser.userArn (fromUserAttributes formatArn stack a1) =
     IUser.userArn (fromUserAttributes formatArn stack a2) \<and>
   IUser.userArn (fromUserAttributes formatArn stack a1) =
     formatArn stack \<lparr> service = js ''memorydb'', resource = js ''user'', arnFormat = None \<rparr> \<and>
   IUser.userName (fromUserAttributes formatArn stack a1) = UserAttributes.userName a1"
  by (simp add: fromUserAttributes_def)

section \<open>Properties of experiment-template.ts\<close>

lemmas constructor_eval = ExperimentTemplate_constructor_def createExperimentTemplate_def
  renderLogConfiguration_def renderConditions_def Let_def

text \<open>
  C9. \<open>renderConditions\<close> returns a list as long as the stop conditions, in their order;
  each element has the source of its condition, and as value the ARN of the alarm, or none
  when the condition has no alarm.
\<close>

theorem renderConditions_map:
  "length (renderConditions this) =
     length (ExperimentTemplateProps.stopConditions (props this)) \<and>
   (\<forall>i < length (ExperimentTemplateProps.stopConditions (props this)).
      ExperimentTemplateStopConditionProperty.source (renderConditions this ! i) =
        StopCondition.source (ExperimentTemplateProps.stopConditions (props this) ! i) \<and>
      ExperimentTemplateStopConditionProperty.value (renderConditions this ! i) =
        (case StopCondition.value (ExperimentTemplateProps.stopConditions (props this) ! i) of
           None \<Rightarrow> None
         | Some a \<Rightarrow> Some (alarmArn a)))"
  by (simp add: renderConditions_def)

theorem renderConditions_map_witness:
  "length (renderConditions
     \<lparr> props = \<lparr> ExperimentTemplateProps.description = js ''d'', role = None,
         ExperimentTemplateProps.stopConditions =
           [\<lparr> StopCondition.source = js ''aws:cloudwatch:alarm'',
              StopCondition.value = Some \<lparr> alarmArn = js ''arn:a'' \<rparr> \<rparr>,
            \<lparr> StopCondition.source = js ''none'', StopCondition.value = None \<rparr>],
         ExperimentTemplateProps.targets = [1 :: nat],
         ExperimentTemplateProps.actions = Some [2 :: nat],
         ExperimentTemplateProps.accountTargeting = SINGLE_ACCOUNT,
         ExperimentTemplateProps.emptyTargetResolutionMode = FAIL,
         ExperimentTemplateProps.logConfiguration = (None :: nat LogConfiguration option) \<rparr>,
       fisRole = \<lparr> IRole.roleArn = js ''arn:r'' \<rparr>, cloudWatchLogsGroup = None,
       s3LoggingBucket = None \<rparr>) = 2 \<and>
   ExperimentTemplateStopConditionProperty.value (renderConditions
     \<lparr> props = \<lparr> ExperimentTemplateProps.description = js ''d'', role = None,
         ExperimentTemplateProps.stopConditions =
           [\<lparr> StopCondition.source = js ''aws:cloudwatch:alarm'',
              StopCondition.value = Some \<lparr> alarmArn = js ''arn:a'' \<rparr> \<rparr>,
            \<lparr> StopCondition.source = js ''none'', StopCondition.value = None \<rparr>],
         ExperimentTemplateProps.targets = [1 :: nat],
         ExperimentTemplateProps.actions = Some [2 :: nat],
         ExperimentTemplateProps.accountTargeting = SINGLE_ACCOUNT,
         ExperimentTemplateProps.emptyTargetResolutionMode = FAIL,
         ExperimentTemplateProps.logConfiguration = (None :: nat LogConfiguration option) \<rparr>,
       fisRole = \<lparr> IRole.roleArn = js ''arn:r'' \<rparr>, cloudWatchLogsGroup = None,
       s3LoggingBucket = None \<rparr> ! 1) = None"
proof -
  let ?T = "\<lparr> props = \<lparr> ExperimentTemplateProps.description = js ''d'', role = None,
         ExperimentTemplateProps.stopConditions =
           [\<lparr> StopCondition.source = js ''aws:cloudwatch:alarm'',
              StopCondition.value = Some \<lparr> alarmArn = js ''arn:a'' \<rparr> \<rparr>,
            \<lparr> StopCondition.source = js ''none'', StopCondition.value = None \<rparr>],
         ExperimentTemplateProps.targets = [1 :: nat],
         ExperimentTemplateProps.actions = Some [2 :: nat],
         ExperimentTemplateProps.accountTargeting = SINGLE_ACCOUNT,
         ExperimentTemplateProps.emptyTargetResolutionMode = FAIL,
         ExperimentTemplateProps.logConfiguration = (None :: nat LogConfiguration option) \<rparr>,
       fisRole = \<lparr> IRole.roleArn = js ''arn:r'' \<rparr>, cloudWatchLogsGroup = None,
       s3LoggingBucket = None \<rparr>"
  have "(1::nat) < length (ExperimentTemplateProps.stopConditions (props ?T))" by simp
  then show ?thesis using renderConditions_map [of ?T] by simp
qed

text \<open>
  C6. Without a role, the constructor creates exactly one role, assumed by the service
  principal "pipes.amazonaws.com", and the rendered template has that role's ARN; with a role
  given, it creates no role and the rendered template has the given role's ARN. A template is
  rendered exactly when the log configuration is absent or has both channels enabled.
\<close>

theorem ExperimentTemplate_constructor_role:
  "(role p = None \<longrightarrow>
      [(i, rp). Role i rp \<leftarrow> fst (ExperimentTemplate_constructor new_Role new_LogGroup new_Bucket p)] =
        [(js ''Role'', \<lparr> assumedBy = ServicePrincipal (js ''pipes.amazonaws.com'') \<rparr>)] \<and>
      [CfnExperimentTemplateProps.roleArn t. CfnExperimentTemplate i t \<leftarrow>
          fst (ExperimentTemplate_constructor new_Role new_LogGroup new_Bucket p)] =
        (if (case ExperimentTemplateProps.logConfiguration p of
               None \<Rightarrow> True
             | Some lc \<Rightarrow> cloudWatchLogLoggingEnabled lc \<and> s3LoggingEnabled lc)
         then [IRole.roleArn (new_Role (js ''Role'')
                 \<lparr> assumedBy = ServicePrincipal (js ''pipes.amazonaws.com'') \<rparr>)]
         else [])) \<and>
   (role p = Some r \<longrightarrow>
      [(i, rp). Role i rp \<leftarrow> fst (ExperimentTemplate_constructor new_Role new_LogGroup new_Bucket p)] = [] \<and>
      [CfnExperimentTemplateProps.roleArn t. CfnExperimentTemplate i t \<leftarrow>
          fst (ExperimentTemplate_constructor new_Role new_LogGroup new_Bucket p)] =
        (if (case ExperimentTemplateProps.logConfiguration p of
               None \<Rightarrow> True
             | Some lc \<Rightarrow> cloudWatchLogLoggingEnabled lc \<and> s3LoggingEnabled lc)
         then [IRole.roleArn r]
         else []))"
  by (auto simp: constructor_eval split: option.splits)

theorem ExperimentTemplate_constructor_role_witness:
  "[(i, rp). Role i rp \<leftarrow> fst (ExperimentTemplate_constructor
       (\<lambda>i rp. \<lparr> IRole.roleArn = js ''arn:new-role'' \<rparr>)
       (\<lambda>i lp. \<lparr> ILogGroup.logGroupArn = js ''arn:new-log-group'' \<rparr>)
       (\<lambda>i bp. \<lparr> bucketArn = js ''arn:new-bucket'' \<rparr>)
       \<lparr> ExperimentTemplateProps.description = js ''d'', role = None,
         ExperimentTemplateProps.stopConditions = [],
         ExperimentTemplateProps.targets = [1 :: nat],
         ExperimentTemplateProps.actions = Some [2 :: nat],
         ExperimentTemplateProps.accountTargeting = SINGLE_ACCOUNT,
         ExperimentTemplateProps.emptyTargetResolutionMode = FAIL,
         ExperimentTemplateProps.logConfiguration = (None :: nat LogConfiguration option) \<rparr>)] =
     [(js ''Role'', \<lparr> assumedBy = ServicePrincipal (js ''pipes.amazonaws.com'') \<rparr>)] \<and>
   [CfnExperimentTemplateProps.roleArn t. CfnExperimentTemplate i t \<leftarrow>
      fst (ExperimentTemplate_constructor
       (\<lambda>i rp. \<lparr> IRole.roleArn = js ''arn:new-role'' \<rparr>)
       (\<lambda>i lp. \<lparr> ILogGroup.logGroupArn = js ''arn:new-log-group'' \<rparr>)
       (\<lambda>i bp. \<lparr> bucketArn = js ''arn:new-bucket'' \<rparr>)
       \<lparr> ExperimentTemplateProps.description = js ''d'', role = None,
         ExperimentTemplateProps.stopConditions = [],
         ExperimentTemplateProps.targets = [1 :: nat],
         ExperimentTemplateProps.actions = Some [2 :: nat],
         ExperimentTemplateProps.accountTargeting = SINGLE_ACCOUNT,
         ExperimentTemplateProps.emptyTargetResolutionMode = FAIL,
         ExperimentTemplateProps.logConfiguration = (None :: nat LogConfiguration option) \<rparr>)] =
     [js ''arn:new-role''] \<and>
   [(i, rp). Role i rp \<leftarrow> fst (ExperimentTemplate_constructor
       (\<lambda>i rp. \<lparr> IRole.roleArn = js ''arn:new-role'' \<rparr>)
       (\<lambda>i lp. \<lparr> ILogGroup.logGroupArn = js ''arn:new-log-group'' \<rparr>)
       (\<lambda>i bp. \<lparr> bucketArn = js ''arn:new-bucket'' \<rparr>)
       \<lparr> ExperimentTemplateProps.description = js ''d'',
         role = Some \<lparr> IRole.roleArn = js ''arn:given-role'' \<rparr>,
         ExperimentTemplateProps.stopConditions = [],
         ExperimentTemplateProps.targets = [1 :: nat],
         ExperimentTemplateProps.actions = Some [2 :: nat],
         ExperimentTemplateProps.accountTargeting = SINGLE_ACCOUNT,
         ExperimentTemplateProps.emptyTargetResolutionMode = FAIL,
         ExperimentTemplateProps.logConfiguration = (None :: nat LogConfiguration option) \<rparr>)] =
     [] \<and>
   [CfnExperimentTemplateProps.roleArn t. CfnExperimentTemplate i t \<leftarrow>
      fst (ExperimentTemplate_constructor
       (\<lambda>i rp. \<lparr> IRole.roleArn = js ''arn:new-role'' \<rparr>)
       (\<lambda>i lp. \<lparr> ILogGroup.logGroupArn = js ''arn:new-log-group'' \<rparr>)
       (\<lambda>i bp. \<lparr> bucketArn = js ''arn:new-bucket'' \<rparr>)
       \<lparr> ExperimentTemplateProps.description = js ''d'',
         role = Some \<lparr> IRole.roleArn = js ''arn:given-role'' \<rparr>,
         ExperimentTemplateProps.stopConditions = [],
         ExperimentTemplateProps.targets = [1 :: nat],
         ExperimentTemplateProps.actions = Some [2 :: nat],
         ExperimentTemplateProps.accountTargeting = SINGLE_ACCOUNT,
         ExperimentTemplateProps.emptyTargetResolutionMode = FAIL,
         ExperimentTemplateProps.logConfiguration = (None :: nat LogConfiguration option) \<rparr>)] =
     [js ''arn:given-role'']"
proof -
  let ?nr = "\<lambda>(i :: js_string) (rp :: RoleProps). \<lparr> IRole.roleArn = js ''arn:new-role'' \<rparr>"
  let ?nl = "\<lambda>(i :: js_string) (lp :: LogGroupProps).
    \<lparr> ILogGroup.logGroupArn = js ''arn:new-log-group'' \<rparr>"
  let ?nb = "\<lambda>(i :: js_string) (bp :: BucketProps). \<lparr> bucketArn = js ''arn:new-bucket'' \<rparr>"
  let ?p = "\<lambda>r. \<lparr> ExperimentTemplateProps.description = js ''d'', role = r,
         ExperimentTemplateProps.stopConditions = [],
         ExperimentTemplateProps.targets = [1 :: nat],
         ExperimentTemplateProps.actions = Some [2 :: nat],
         ExperimentTemplateProps.accountTargeting = SINGLE_ACCOUNT,
         ExperimentTemplateProps.emptyTargetResolutionMode = FAIL,
         ExperimentTemplateProps.logConfiguration = (None :: nat LogConfiguration option) \<rparr>"
  have a: "role (?p None) = None" by simp
  have b: "role (?p (Some \<lparr> IRole.roleArn = js ''arn:given-role'' \<rparr>)) =
    Some \<lparr> IRole.roleArn = js ''arn:given-role'' \<rparr>" by simp
  have c: "\<And>r. ExperimentTemplateProps.logConfiguration (?p r) = None" by simp
  show ?thesis
    using ExperimentTemplate_constructor_role [of "?p None" ?nr ?nl ?nb]
      ExperimentTemplate_constructor_role
        [of "?p (Some \<lparr> IRole.roleArn = js ''arn:given-role'' \<rparr>)" ?nr ?nl ?nb
            "\<lparr> IRole.roleArn = js ''arn:given-role'' \<rparr>"]
      a b c
    by simp
qed

lemma createExperimentTemplate_placeholders:
  "createExperimentTemplate this = Inr t \<Longrightarrow>
     CfnExperimentTemplateProps.targets t =
       [(js ''tartsKey'',
         \<lparr> resourceType = js ''resourceType'',
           selectionMode = js ''selectionMode'',
           filters = [\<lparr> path = js ''path'', values = [js ''values''] \<rparr>],
           ExperimentTemplateTargetProperty.parameters =
             [(js ''parametersKey'', js ''parameters'')],
           resourceArns = [js ''resourceArns''],
           resourceTags = [(js ''resourceTagsKey'', js ''resourceTags'')] \<rparr>)] \<and>
     CfnExperimentTemplateProps.actions t =
       [(js ''actionsKey'',
         \<lparr> actionId = js ''actionId'',
           ExperimentTemplateActionProperty.description = js ''description'',
           ExperimentTemplateActionProperty.parameters =
             [(js ''parametersKey'', js ''parameters'')],
           startAfter = [js ''startAfter''],
           ExperimentTemplateActionProperty.targets =
             [(js ''targetsKey'', js ''targets'')] \<rparr>)]"
  by (auto simp: createExperimentTemplate_def split: option.splits sum.splits)

text \<open>
  C2. Two configurations that differ in their targets and actions only render the same
  template, whose targets and actions are the fixed entries "tartsKey" and "actionsKey".
  \<open>createExperimentTemplate_placeholders\<close> above shows them in every rendered template.
\<close>

theorem rendered_targets_ignore_props:
  "fst (ExperimentTemplate_constructor new_Role new_LogGroup new_Bucket
     \<lparr> ExperimentTemplateProps.description = js ''d'',
       role = Some \<lparr> IRole.roleArn = js ''arn:r'' \<rparr>,
       ExperimentTemplateProps.stopConditions = [],
       ExperimentTemplateProps.targets = [1 :: nat, 2],
       ExperimentTemplateProps.actions = Some [3 :: nat],
       ExperimentTemplateProps.accountTargeting = SINGLE_ACCOUNT,
       ExperimentTemplateProps.emptyTargetResolutionMode = FAIL,
       ExperimentTemplateProps.logConfiguration = (None :: nat LogConfiguration option) \<rparr>) =
   fst (ExperimentTemplate_constructor new_Role new_LogGroup new_Bucket
     \<lparr> ExperimentTemplateProps.description = js ''d'',
       role = Some \<lparr> IRole.roleArn = js ''arn:r'' \<rparr>,
       ExperimentTemplateProps.stopConditions = [],
       ExperimentTemplateProps.targets = ([] :: nat list),
       ExperimentTemplateProps.actions = (None :: nat list option),
       ExperimentTemplateProps.accountTargeting = SINGLE_ACCOUNT,
       ExperimentTemplateProps.emptyTargetResolutionMode = FAIL,
       ExperimentTemplateProps.logConfiguration = (None :: nat LogConfiguration option) \<rparr>) \<and>
   fst (ExperimentTemplate_constructor new_Role new_LogGroup new_Bucket
     \<lparr> ExperimentTemplateProps.description = js ''d'',
       role = Some \<lparr> IRole.roleArn = js ''arn:r'' \<rparr>,
       ExperimentTemplateProps.stopConditions = [],
       ExperimentTemplateProps.targets = [1 :: nat, 2],
       ExperimentTemplateProps.actions = Some [3 :: nat],
       ExperimentTemplateProps.accountTargeting = SINGLE_ACCOUNT,
       ExperimentTemplateProps.emptyTargetResolutionMode = FAIL,
       ExperimentTemplateProps.logConfiguration = (None :: nat LogConfiguration option) \<rparr>) =
   [CfnExperimentTemplate (js ''Resource'')
      \<lparr> CfnExperimentTemplateProps.description = js ''d'',
        CfnExperimentTemplateProps.roleArn = js ''arn:r'',
        CfnExperimentTemplateProps.stopConditions = [],
        CfnExperimentTemplateProps.targets =
          [(js ''tartsKey'',
            \<lparr> resourceType = js ''resourceType'',
              selectionMode = js ''selectionMode'',
              filters = [\<lparr> path = js ''path'', values = [js ''values''] \<rparr>],
              ExperimentTemplateTargetProperty.parameters =
                [(js ''parametersKey'', js ''parameters'')],
              resourceArns = [js ''resourceArns''],
              resourceTags = [(js ''resourceTagsKey'', js ''resourceTags'')] \<rparr>)],
        CfnExperimentTemplateProps.actions =
          [(js ''actionsKey'',
            \<lparr> actionId = js ''actionId'',
              ExperimentTemplateActionProperty.description = js ''description'',
              ExperimentTemplateActionProperty.parameters =
                [(js ''parametersKey'', js ''parameters'')],
              startAfter = [js ''startAfter''],
              ExperimentTemplateActionProperty.targets =
                [(js ''targetsKey'', js ''targets'')] \<rparr>)],
        experimentOptions =
          \<lparr> ExperimentTemplateExperimentOptionsProperty.accountTargeting = SINGLE_ACCOUNT,
            ExperimentTemplateExperimentOptionsProperty.emptyTargetResolutionMode = FAIL \<rparr>,
        CfnExperimentTemplateProps.logConfiguration = None \<rparr>]"
  by (simp add: constructor_eval)

text \<open>
  C3. A log configuration whose \<open>cloudWatchLogLoggingEnabled\<close> is false: the field
  \<open>cloudWatchLogsGroup\<close> is never assigned, and rendering throws a \<open>TypeError\<close> when it reads
  \<open>logGroupArn\<close>. The two lemmas after the theorem give the general case.
\<close>

theorem renderLogConfiguration_disabled_channel_throws:
  "ExperimentTemplate_constructor new_Role new_LogGroup new_Bucket
     \<lparr> ExperimentTemplateProps.description = js ''d'',
       role = Some \<lparr> IRole.roleArn = js ''arn:r'' \<rparr>,
       ExperimentTemplateProps.stopConditions = [],
       ExperimentTemplateProps.targets = ([] :: nat list),
       ExperimentTemplateProps.actions = (None :: nat list option),
       ExperimentTemplateProps.accountTargeting = SINGLE_ACCOUNT,
       ExperimentTemplateProps.emptyTargetResolutionMode = FAIL,
       ExperimentTemplateProps.logConfiguration =
         Some \<lparr> LogConfiguration.logSchemaVersion = (2 :: nat),
                cloudWatchLogLoggingEnabled = False,
                cloudwatchLogGroup = Some \<lparr> ILogGroup.logGroupArn = js ''arn:lg'' \<rparr>,
                s3LoggingEnabled = True,
                LogConfiguration.s3LoggingBucket = Some \<lparr> bucketArn = js ''arn:b'' \<rparr>,
                s3LoggingPrefix = None \<rparr> \<rparr> =
     ([], Inl (TypeError ''logGroupArn''))"
  by (simp add: constructor_eval)

lemma renderLogConfiguration_both_enabled:
  assumes "ExperimentTemplateProps.logConfiguration p = Some lc"
    and "cloudWatchLogLoggingEnabled lc" and "s3LoggingEnabled lc"
  shows "\<exists>cs this t. ExperimentTemplate_constructor new_Role new_LogGroup new_Bucket p =
           (cs @ [CfnExperimentTemplate (js ''Resource'') t], Inr this) \<and>
         CfnExperimentTemplateProps.logConfiguration t =
           Some \<lparr> ExperimentTemplateLogConfigurationProperty.logSchemaVersion =
                    LogConfiguration.logSchemaVersion lc,
                  cloudWatchLogsConfiguration =
                    \<lparr> CloudWatchLogsConfigurationProperty.logGroupArn =
                        ILogGroup.logGroupArn
                          (case cloudwatchLogGroup lc of
                             Some g \<Rightarrow> g
                           | None \<Rightarrow> new_LogGroup (js ''AppLogs'') \<lparr> retention = ONE_MONTH \<rparr>) \<rparr>,
                  s3Configuration =
                    \<lparr> bucketName = bucketArn
                          (case LogConfiguration.s3LoggingBucket lc of
                             Some b \<Rightarrow> b
                           | None \<Rightarrow>
                               new_Bucket (js ''ArtifactsBucket'')
                                 \<lparr> encryption = KMS_MANAGED \<rparr>),
                      prefix = s3LoggingPrefix lc \<rparr> \<rparr>"
  using assms by (auto simp: constructor_eval split: option.splits)

lemma renderLogConfiguration_throws_iff:
  assumes "ExperimentTemplateProps.logConfiguration p = Some lc"
  shows "(\<exists>e. snd (ExperimentTemplate_constructor new_Role new_LogGroup new_Bucket p) = Inl e) \<longleftrightarrow>
         \<not> cloudWatchLogLoggingEnabled lc \<or> \<not> s3LoggingEnabled lc"
  using assms by (auto simp: constructor_eval split: option.splits)

end
